theory Spec2Isabelle
  imports Main
begin

section \<open>Values of the Python runtime used by the bot\<close>

text \<open>
  The exceptions that the modelled code paths can raise. A computation that may raise
  returns \<open>error + 'a\<close>, with \<open>Inl\<close> for the exception.
\<close>

datatype error = ValueError | OverflowError | JobLookupError string | TelegramAPIError

subsection \<open>Text\<close>

text \<open>
  Text is modelled for ASCII input. \<open>py_isspace\<close> is \<open>str.isspace\<close> on one character,
  \<open>strip\<close> is \<open>str.strip()\<close>, \<open>split_on\<close> is \<open>str.split(sep)\<close> for a one-character
  separator and \<open>join_with\<close> is \<open>sep.join(parts)\<close>.
\<close>

definition py_isspace :: "char \<Rightarrow> bool" where
  "py_isspace c = (c \<in> set [CHR 0x09, CHR 0x0A, CHR 0x0B, CHR 0x0C, CHR 0x0D,
                              CHR 0x1C, CHR 0x1D, CHR 0x1E, CHR 0x1F, CHR 0x20])"

definition strip :: "string \<Rightarrow> string" where
  "strip s = rev (dropWhile py_isspace (rev (dropWhile py_isspace s)))"

fun split_on :: "char \<Rightarrow> string \<Rightarrow> string list" where
  "split_on sep [] = [[]]"
| "split_on sep (c # cs) =
     (if c = sep then [] # split_on sep cs
      else (case split_on sep cs of
              [] \<Rightarrow> [[c]]
            | w # ws \<Rightarrow> (c # w) # ws))"

fun join_with :: "char \<Rightarrow> string list \<Rightarrow> string" where
  "join_with sep [] = []"
| "join_with sep [w] = w"
| "join_with sep (w # v # ws) = w @ sep # join_with sep (v # ws)"

definition is_digit :: "char \<Rightarrow> bool" where
  "is_digit c = (c \<in> set ''0123456789'')"

definition digit_val :: "char \<Rightarrow> int" where
  "digit_val c = of_char c - 48"

text \<open>
  \<open>py_int\<close> is \<open>int(s)\<close> on text: surrounding whitespace is dropped, one sign is
  allowed, and the digits may be grouped by single underscores. \<open>None\<close> stands for the
  ValueError that \<open>int\<close> raises. The whitespace that \<open>int\<close> drops is the blank and the
  characters from tab to carriage return; unlike \<open>str.strip\<close>, it does not drop the
  separators from 0x1C to 0x1F.
\<close>

definition int_isspace :: "char \<Rightarrow> bool" where
  "int_isspace c = (c \<in> set [CHR 0x09, CHR 0x0A, CHR 0x0B, CHR 0x0C, CHR 0x0D, CHR 0x20])"

definition int_strip :: "string \<Rightarrow> string" where
  "int_strip s = rev (dropWhile int_isspace (rev (dropWhile int_isspace s)))"

fun py_digits :: "int \<Rightarrow> string \<Rightarrow> int option" where
  "py_digits acc [] = Some acc"
| "py_digits acc [c] = (if is_digit c then Some (10 * acc + digit_val c) else None)"
| "py_digits acc (c # d # cs) =
     (if is_digit c then py_digits (10 * acc + digit_val c) (d # cs)
      else if c = CHR ''_'' \<and> is_digit d then py_digits acc (d # cs)
      else None)"

definition py_unsigned :: "string \<Rightarrow> int option" where
  "py_unsigned s = (case s of [] \<Rightarrow> None
                    | c # cs \<Rightarrow> if is_digit c then py_digits 0 s else None)"

definition py_int :: "string \<Rightarrow> int option" where
  "py_int s =
     (case int_strip s of
        [] \<Rightarrow> None
      | c # cs \<Rightarrow>
          if c = CHR ''-'' then map_option uminus (py_unsigned cs)
          else if c = CHR ''+'' then py_unsigned cs
          else py_unsigned (c # cs))"

subsection \<open>Dates, times and durations\<close>

text \<open>
  A \<open>date\<close> is its proleptic Gregorian ordinal (\<open>date.toordinal()\<close>, 1 for 0001-01-01
  and \<open>max_ordinal\<close> for 9999-12-31). A naive \<open>datetime\<close> is the number of microseconds
  since the midnight that would begin ordinal 0, so that a datetime \<open>dt\<close> lies on the
  date \<open>dt div us_per_day\<close>. A \<open>timedelta\<close> is a signed number of microseconds.
\<close>

type_synonym date = int
type_synonym datetime = int
type_synonym timedelta = int

definition us_per_minute :: int where "us_per_minute = 60000000"
definition us_per_hour :: int where "us_per_hour = 3600000000"
definition us_per_day :: int where "us_per_day = 86400000000"
definition max_ordinal :: int where "max_ordinal = 3652059"
definition max_delta_days :: int where "max_delta_days = 999999999"

text \<open>\<open>timedelta(days=d, hours=h, minutes=m)\<close>: OverflowError beyond 999999999 days.\<close>

definition timedelta :: "int \<Rightarrow> int \<Rightarrow> int \<Rightarrow> error + timedelta" where
  "timedelta d h m =
     (let us = d * us_per_day + h * us_per_hour + m * us_per_minute
      in if \<bar>us div us_per_day\<bar> \<le> max_delta_days then Inr us else Inl OverflowError)"

text \<open>\<open>datetime.combine(d, datetime.min.time())\<close>: midnight of the date.\<close>

definition combine_min :: "date \<Rightarrow> datetime" where
  "combine_min d = d * us_per_day"

text \<open>\<open>dt + td\<close>: OverflowError when the result leaves the years 1 to 9999.\<close>

definition dt_add :: "datetime \<Rightarrow> timedelta \<Rightarrow> error + datetime" where
  "dt_add dt td =
     (let r = dt + td
      in if 0 < r div us_per_day \<and> r div us_per_day \<le> max_ordinal then Inr r
         else Inl OverflowError)"

definition dt_date :: "datetime \<Rightarrow> date" where
  "dt_date dt = dt div us_per_day"

definition dt_hour :: "datetime \<Rightarrow> int" where
  "dt_hour dt = (dt mod us_per_day) div us_per_hour"

definition dt_minute :: "datetime \<Rightarrow> int" where
  "dt_minute dt = (dt mod us_per_hour) div us_per_minute"

text \<open>
  \<open>strptime_hm\<close> is \<open>datetime.strptime(s, "%H:%M")\<close>: the hour is two digits from 00
  to 23 or one digit, the minute two digits from 00 to 59 or one digit, and nothing may
  follow. The two-digit alternatives are tried first, as the library's pattern does; a
  hour alternative that is not followed by the colon cannot be repaired by a shorter
  one, since the next character is then a digit.
\<close>

fun take_hour :: "string \<Rightarrow> (int \<times> string) option" where
  "take_hour [] = None"
| "take_hour [a] = (if is_digit a then Some (digit_val a, []) else None)"
| "take_hour (a # b # r) =
     (if a = CHR ''2'' \<and> b \<in> set ''0123'' then Some (20 + digit_val b, r)
      else if a \<in> set ''01'' \<and> is_digit b then Some (10 * digit_val a + digit_val b, r)
      else if is_digit a then Some (digit_val a, b # r)
      else None)"

fun take_minute :: "string \<Rightarrow> (int \<times> string) option" where
  "take_minute [] = None"
| "take_minute [a] = (if is_digit a then Some (digit_val a, []) else None)"
| "take_minute (a # b # r) =
     (if a \<in> set ''012345'' \<and> is_digit b then Some (10 * digit_val a + digit_val b, r)
      else if is_digit a then Some (digit_val a, b # r)
      else None)"

definition strptime_hm :: "string \<Rightarrow> (int \<times> int) option" where
  "strptime_hm s =
     (case take_hour s of
        None \<Rightarrow> None
      | Some (h, r) \<Rightarrow>
          (case r of
             [] \<Rightarrow> None
           | c # r' \<Rightarrow>
               if c = CHR '':'' then
                 (case take_minute r' of
                    Some (m, []) \<Rightarrow> Some (h, m)
                  | _ \<Rightarrow> None)
               else None))"

section \<open>Data model (database.py)\<close>

text \<open>
  A row of the table \<open>tasks\<close> without its primary key: the store maps the key to the
  row, so \<open>task.id\<close> is the key under which the row is found.
\<close>

record task =
  user_id :: int
  title :: string
  category_id :: "int option"
  due_time :: string
  start_date :: date
  repeat_type :: string
  repeat_days :: "string option"
  interval_days :: int
  reminder_offset :: int
  is_done :: bool
  created_at :: datetime

record category =
  cat_user_id :: int
  cat_name :: string

section \<open>Triggers (bot.py, get\_trigger)\<close>

text \<open>
  The trigger classes belong to the scheduling library. A trigger value records the
  arguments that the code passes to the constructor:
  \<^item> \<open>CronTime hour minute\<close> is \<open>CronTrigger(hour=, minute=)\<close>;
  \<^item> \<open>CronWeekly days hour minute\<close> is \<open>CronTrigger(day_of_week=, hour=, minute=)\<close>;
  \<^item> \<open>IntervalTrigger days start\<close> is \<open>IntervalTrigger(days=, start_date=)\<close>;
  \<^item> \<open>CronDate d hour minute\<close> is \<open>CronTrigger(year=, month=, day=, hour=, minute=)\<close>,
    with the date \<open>d\<close> standing for its calendar fields year, month and day.

  \<open>CronTrigger\<close> reads each field as an expression and raises ValueError for an hour
  outside 0 to 23 or a minute outside 0 to 59 (a negative number is no expression of the
  field, a larger one fails its range check); \<open>cron_time\<close> and \<open>cron_weekly\<close> are the
  two constructor calls with this check. The fields of \<open>CronDate\<close> are read off a
  datetime, so its hour and minute are always in range. How the library reads the text
  of \<open>day_of_week\<close> and which years it accepts is not modelled: \<open>CronWeekly\<close> and
  \<open>CronDate\<close> record the arguments as passed.
\<close>

datatype trigger =
    CronTime int int
  | CronWeekly string int int
  | IntervalTrigger int datetime
  | CronDate date int int

definition cron_time :: "int \<Rightarrow> int \<Rightarrow> error + trigger" where
  "cron_time hour minute =
     (if 0 \<le> hour \<and> hour \<le> 23 \<and> 0 \<le> minute \<and> minute \<le> 59
      then Inr (CronTime hour minute) else Inl ValueError)"

definition cron_weekly :: "string \<Rightarrow> int \<Rightarrow> int \<Rightarrow> error + trigger" where
  "cron_weekly days hour minute =
     (if 0 \<le> hour \<and> hour \<le> 23 \<and> 0 \<le> minute \<and> minute \<le> 59
      then Inr (CronWeekly days hour minute) else Inl ValueError)"

text \<open>\<open>validate_time\<close>, lines 44 to 49.\<close>

definition validate_time :: "string \<Rightarrow> bool" where
  "validate_time time_str = (strptime_hm time_str \<noteq> None)"

text \<open>\<open>hour, minute = map(int, task.due_time.split(':'))\<close>, lines 73 and 103.\<close>

definition parse_due_time :: "string \<Rightarrow> error + int \<times> int" where
  "parse_due_time s =
     (case split_on CHR '':'' s of
        [a, b] \<Rightarrow>
          (case py_int a of
             None \<Rightarrow> Inl ValueError
           | Some hour \<Rightarrow>
               (case py_int b of
                  None \<Rightarrow> Inl ValueError
                | Some minute \<Rightarrow> Inr (hour, minute)))
      | _ \<Rightarrow> Inl ValueError)"

text \<open>
  Lines 104 to 110 of \<open>get_trigger\<close>: the time of day of the early reminder. The test
  \<open>offset and task.reminder_offset\<close> holds when the flag is set and the offset is not 0.
\<close>

definition offset_time :: "bool \<Rightarrow> int \<Rightarrow> int \<Rightarrow> int \<Rightarrow> int \<times> int" where
  "offset_time offset rem_offset hour minute =
     (if offset \<and> rem_offset \<noteq> 0 then
        (let minute1 = minute - rem_offset;
             minute2 = (if minute1 < 0 then minute1 + 60 else minute1);
             hour2 = (if minute1 < 0 then hour - 1 else hour);
             hour3 = (if hour2 < 0 then 23 else hour2)
         in (hour3, minute2))
      else (hour, minute))"

text \<open>
  \<open>datetime.combine(task.start_date, datetime.min.time()) + timedelta(hours=hour,
  minutes=minute)\<close>, lines 119 and 125.
\<close>

definition start_at :: "date \<Rightarrow> int \<Rightarrow> int \<Rightarrow> error + datetime" where
  "start_at d hour minute =
     (case timedelta 0 hour minute of
        Inl e \<Rightarrow> Inl e
      | Inr td \<Rightarrow> dt_add (combine_min d) td)"

text \<open>
  \<open>x += timedelta(days=n)\<close> when \<open>x < datetime.now()\<close>, lines 120 to 121 and 126 to
  127; \<open>now\<close> is the value that \<open>datetime.now()\<close> returns.
\<close>

definition roll_forward :: "datetime \<Rightarrow> datetime \<Rightarrow> int \<Rightarrow> error + datetime" where
  "roll_forward x now n =
     (if x < now then
        (case timedelta n 0 0 of
           Inl e \<Rightarrow> Inl e
         | Inr td \<Rightarrow> dt_add x td)
      else Inr x)"

text \<open>Lines 112 to 129 of \<open>get_trigger\<close>: the trigger for a time of day.\<close>

definition trigger_at :: "task \<Rightarrow> int \<times> int \<Rightarrow> datetime \<Rightarrow> error + trigger" where
  "trigger_at task hm now =
     (let hour = fst hm; minute = snd hm
      in if repeat_type task = ''daily'' then cron_time hour minute
         else if repeat_type task = ''weekly'' \<and> repeat_days task \<noteq> None
                 \<and> repeat_days task \<noteq> Some [] then
           cron_weekly (join_with CHR '','' (split_on CHR '','' (the (repeat_days task))))
             hour minute
         else if repeat_type task = ''interval'' \<and> interval_days task \<noteq> 0 then
           (case start_at (start_date task) hour minute of
              Inl e \<Rightarrow> Inl e
            | Inr start_datetime \<Rightarrow>
                (case roll_forward start_datetime now (interval_days task) of
                   Inl e \<Rightarrow> Inl e
                 | Inr start_datetime' \<Rightarrow>
                     Inr (IntervalTrigger (interval_days task) start_datetime')))
         else
           (case start_at (start_date task) hour minute of
              Inl e \<Rightarrow> Inl e
            | Inr run_date \<Rightarrow>
                (case roll_forward run_date now 1 of
                   Inl e \<Rightarrow> Inl e
                 | Inr run_date' \<Rightarrow>
                     Inr (CronDate (dt_date run_date') (dt_hour run_date')
                            (dt_minute run_date')))))"

text \<open>\<open>get_trigger\<close>, lines 101 to 129.\<close>

definition get_trigger :: "task \<Rightarrow> bool \<Rightarrow> datetime \<Rightarrow> error + trigger" where
  "get_trigger task offset now =
     (case parse_due_time (due_time task) of
        Inl e \<Rightarrow> Inl e
      | Inr (hour, minute) \<Rightarrow>
          trigger_at task (offset_time offset (reminder_offset task) hour minute) now)"

text \<open>
  The instant that \<open>CronTrigger(year=, month=, day=, hour=, minute=)\<close> names: the given
  minute of the given date, at second 0.
\<close>

definition cron_instant :: "date \<Rightarrow> int \<Rightarrow> int \<Rightarrow> datetime" where
  "cron_instant d hour minute = d * us_per_day + hour * us_per_hour + minute * us_per_minute"

section \<open>The scheduler's job table\<close>

text \<open>
  A job records the callable, the trigger and the arguments given to
  \<open>scheduler.add_job\<close>. The table maps a job id to its job. \<open>add_job\<close> is called with
  \<open>replace_existing=True\<close>, so a job under the same id is replaced.
  \<open>scheduler.remove_job\<close> raises JobLookupError when no job has the id.
\<close>

datatype job_func = SendReminder | SendEarlyReminder

record job =
  job_func :: job_func
  job_trigger :: trigger
  job_args :: "int list"

type_synonym job_table = "string \<Rightarrow> job option"

definition add_job :: "string \<Rightarrow> job \<Rightarrow> job_table \<Rightarrow> job_table" where
  "add_job jid j js = js(jid \<mapsto> j)"

definition remove_job :: "string \<Rightarrow> job_table \<Rightarrow> error + job_table" where
  "remove_job jid js =
     (case js jid of
        None \<Rightarrow> Inl (JobLookupError jid)
      | Some j \<Rightarrow> Inr (js(jid := None)))"

text \<open>\<open>str(n)\<close> for an integer, and the job ids \<open>f"task_{task.id}"\<close> and
  \<open>f"task_{task.id}_early"\<close>.\<close>

definition digit_char :: "nat \<Rightarrow> char" where
  "digit_char n = ''0123456789'' ! n"

fun str_nat :: "nat \<Rightarrow> string" where
  "str_nat n = (if n < 10 then [digit_char n] else str_nat (n div 10) @ [digit_char (n mod 10)])"

definition str_int :: "int \<Rightarrow> string" where
  "str_int i = (if i < 0 then CHR ''-'' # str_nat (nat (- i)) else str_nat (nat i))"

definition main_job_id :: "int \<Rightarrow> string" where
  "main_job_id task_id = ''task_'' @ str_int task_id"

definition early_job_id :: "int \<Rightarrow> string" where
  "early_job_id task_id = ''task_'' @ str_int task_id @ ''_early''"

section \<open>The state of the bot\<close>

text \<open>
  The two tables of the database, keyed by primary key, the scheduler's job table and
  the reminders handed to the messaging service so far. A \<open>Reminder\<close> carries the
  recipient, the title, the category name if any and the due time that \<open>send_reminder\<close>
  puts into its message; an \<open>EarlyReminder\<close> the recipient, the offset, the title and
  the due time.
\<close>

datatype notification =
    Reminder int string "string option" string
  | EarlyReminder int int string string

record state =
  tasks :: "int \<Rightarrow> task option"
  categories :: "int \<Rightarrow> category option"
  jobs :: job_table
  sent :: "notification list"

text \<open>
  What a handler tells the user, and how a handler ends: with a reply or with an
  exception that leaves it.
\<close>

datatype reply =
    TaskDone | TaskNotFound | TaskDeleted | TaskUpdated | BadTimeFormat | BadNumber
  | EmptyName | CategoryRenamed | CategoryNotFound | CategoryDeleted

datatype outcome = Replied reply | Raised error

text \<open>
  \<open>session.query(Task).filter(Task.id == task_id, Task.user_id == uid).first()\<close> and
  the same query on categories.
\<close>

definition query_task :: "state \<Rightarrow> int \<Rightarrow> int \<Rightarrow> task option" where
  "query_task s task_id uid =
     (case tasks s task_id of
        None \<Rightarrow> None
      | Some t \<Rightarrow> if user_id t = uid then Some t else None)"

definition query_category :: "state \<Rightarrow> int \<Rightarrow> int \<Rightarrow> category option" where
  "query_category s cat_id uid =
     (case categories s cat_id of
        None \<Rightarrow> None
      | Some c \<Rightarrow> if cat_user_id c = uid then Some c else None)"

section \<open>Scheduling and firing (bot.py, lines 71 to 158)\<close>

text \<open>
  \<open>schedule_task\<close>, lines 71 to 99. \<open>now_main\<close> and \<open>now_early\<close> are the clock readings
  of the two calls of \<open>get_trigger\<close>. The result is the job table and the exception, if
  one was raised. Lines 86 to 92 compute two local integers that nothing reads; they
  cannot raise and are left out.
\<close>

definition schedule_task ::
  "int \<Rightarrow> task \<Rightarrow> datetime \<Rightarrow> datetime \<Rightarrow> job_table \<Rightarrow> job_table \<times> error option" where
  "schedule_task task_id task now_main now_early js =
     (case parse_due_time (due_time task) of
        Inl e \<Rightarrow> (js, Some e)
      | Inr hm \<Rightarrow>
          (case get_trigger task False now_main of
             Inl e \<Rightarrow> (js, Some e)
           | Inr trg \<Rightarrow>
               (let js1 = add_job (main_job_id task_id)
                            \<lparr>job_func = SendReminder, job_trigger = trg,
                             job_args = [user_id task, task_id]\<rparr> js
                in if reminder_offset task \<noteq> 0 \<and> reminder_offset task > 0 then
                     (case get_trigger task True now_early of
                        Inl e \<Rightarrow> (js1, Some e)
                      | Inr trg_early \<Rightarrow>
                          (add_job (early_job_id task_id)
                             \<lparr>job_func = SendEarlyReminder, job_trigger = trg_early,
                              job_args = [user_id task, task_id, reminder_offset task]\<rparr> js1,
                           None))
                   else (js1, None))))"

text \<open>
  \<open>bot.send_message\<close>: the messaging service either accepts the message or raises;
  \<open>failure\<close> is what it does on this call.
\<close>

definition send_message :: "error option \<Rightarrow> notification \<Rightarrow> state \<Rightarrow> state \<times> error option" where
  "send_message failure n s =
     (case failure of
        None \<Rightarrow> (s\<lparr>sent := sent s @ [n]\<rparr>, None)
      | Some e \<Rightarrow> (s, Some e))"

text \<open>\<open>task.category.name\<close> when \<open>task.category\<close> is set, lines 136 to 137.\<close>

definition category_name :: "state \<Rightarrow> task \<Rightarrow> string option" where
  "category_name s t =
     (case category_id t of
        None \<Rightarrow> None
      | Some c \<Rightarrow> map_option cat_name (categories s c))"

text \<open>\<open>send_reminder\<close>, lines 131 to 148.\<close>

definition send_reminder :: "error option \<Rightarrow> int \<Rightarrow> int \<Rightarrow> state \<Rightarrow> state \<times> error option" where
  "send_reminder failure uid task_id s =
     (case tasks s task_id of
        None \<Rightarrow> (s, None)
      | Some t \<Rightarrow>
          if \<not> is_done t then
            send_message failure (Reminder uid (title t) (category_name s t) (due_time t)) s
          else (s, None))"

text \<open>\<open>send_early_reminder\<close>, lines 150 to 158.\<close>

definition send_early_reminder ::
  "error option \<Rightarrow> int \<Rightarrow> int \<Rightarrow> int \<Rightarrow> state \<Rightarrow> state \<times> error option" where
  "send_early_reminder failure uid task_id offset s =
     (case tasks s task_id of
        None \<Rightarrow> (s, None)
      | Some t \<Rightarrow>
          if \<not> is_done t then
            send_message failure (EarlyReminder uid offset (title t) (due_time t)) s
          else (s, None))"

section \<open>Handlers that change tasks and categories\<close>

text \<open>
  A handler takes the id of the requesting user (\<open>from_user.id\<close>) and the ids and text
  that it reads from the callback data, the dialogue state and the message. The
  dialogue state itself and the rendering of menus are not part of the model.
\<close>

text \<open>\<open>mark_done\<close>, lines 445 to 460.\<close>

definition mark_done :: "int \<Rightarrow> int \<Rightarrow> state \<Rightarrow> state \<times> outcome" where
  "mark_done uid task_id s =
     (case query_task s task_id uid of
        Some t \<Rightarrow>
          (let s1 = s\<lparr>tasks := (tasks s)(task_id \<mapsto> t\<lparr>is_done := True\<rparr>)\<rparr>
           in case remove_job (main_job_id task_id) (jobs s1) of
                Inl e \<Rightarrow> (s1, Raised e)
              | Inr js1 \<Rightarrow>
                  (case remove_job (early_job_id task_id) js1 of
                     Inl e \<Rightarrow> (s1\<lparr>jobs := js1\<rparr>, Raised e)
                   | Inr js2 \<Rightarrow> (s1\<lparr>jobs := js2\<rparr>, Replied TaskDone)))
      | None \<Rightarrow> (s, Replied TaskNotFound))"

text \<open>
  \<open>delete_task\<close>, lines 697 to 712. The row is deleted and committed after both jobs
  have been removed.
\<close>

definition delete_task :: "int \<Rightarrow> int \<Rightarrow> state \<Rightarrow> state \<times> outcome" where
  "delete_task uid task_id s =
     (case query_task s task_id uid of
        Some t \<Rightarrow>
          (case remove_job (main_job_id task_id) (jobs s) of
             Inl e \<Rightarrow> (s, Raised e)
           | Inr js1 \<Rightarrow>
               (case remove_job (early_job_id task_id) js1 of
                  Inl e \<Rightarrow> (s\<lparr>jobs := js1\<rparr>, Raised e)
                | Inr js2 \<Rightarrow>
                    (s\<lparr>tasks := (tasks s)(task_id := None), jobs := js2\<rparr>,
                     Replied TaskDeleted)))
      | None \<Rightarrow> (s, Replied TaskNotFound))"

text \<open>
  Lines 600 to 603 of \<open>edit_new_value_text\<close>: commit the changed row, schedule it again
  and answer.
\<close>

definition commit_and_schedule ::
  "int \<Rightarrow> task \<Rightarrow> datetime \<Rightarrow> datetime \<Rightarrow> state \<Rightarrow> state \<times> outcome" where
  "commit_and_schedule task_id t now_main now_early s =
     (let s1 = s\<lparr>tasks := (tasks s)(task_id \<mapsto> t)\<rparr>;
          r = schedule_task task_id t now_main now_early (jobs s1)
      in (s1\<lparr>jobs := fst r\<rparr>,
          (case snd r of None \<Rightarrow> Replied TaskUpdated | Some e \<Rightarrow> Raised e)))"

text \<open>
  \<open>edit_new_value_text\<close>, lines 571 to 605. \<open>field\<close> and \<open>task_id\<close> come from the
  dialogue state, \<open>text\<close> is the message.
\<close>

definition edit_new_value_text ::
  "int \<Rightarrow> string \<Rightarrow> int \<Rightarrow> string \<Rightarrow> datetime \<Rightarrow> datetime \<Rightarrow> state \<Rightarrow> state \<times> outcome" where
  "edit_new_value_text uid field task_id text now_main now_early s =
     (case query_task s task_id uid of
        None \<Rightarrow> (s, Replied TaskNotFound)
      | Some t \<Rightarrow>
          if field = ''title'' then
            commit_and_schedule task_id (t\<lparr>title := text\<rparr>) now_main now_early s
          else if field = ''time'' then
            (if \<not> validate_time text then (s, Replied BadTimeFormat)
             else commit_and_schedule task_id (t\<lparr>due_time := text\<rparr>) now_main now_early s)
          else if field = ''offset'' then
            (case py_int text of
               None \<Rightarrow> (s, Replied BadNumber)
             | Some offset \<Rightarrow>
                 if offset < 0 then (s, Replied BadNumber)
                 else commit_and_schedule task_id (t\<lparr>reminder_offset := offset\<rparr>)
                        now_main now_early s)
          else commit_and_schedule task_id t now_main now_early s)"

text \<open>\<open>rename_category\<close>, lines 759 to 776.\<close>

definition rename_category :: "int \<Rightarrow> int \<Rightarrow> string \<Rightarrow> state \<Rightarrow> state \<times> outcome" where
  "rename_category uid cat_id text s =
     (let new_name = strip text
      in if new_name = [] then (s, Replied EmptyName)
         else (case query_category s cat_id uid of
                 Some c \<Rightarrow>
                   (s\<lparr>categories := (categories s)(cat_id \<mapsto> c\<lparr>cat_name := new_name\<rparr>)\<rparr>,
                    Replied CategoryRenamed)
               | None \<Rightarrow> (s, Replied CategoryNotFound)))"

text \<open>
  \<open>confirm_delete_category\<close>, lines 801 to 817. The loop over the tasks of the category
  clears \<open>category_id\<close> on each row that refers to it.
\<close>

definition detach_category :: "int \<Rightarrow> task \<Rightarrow> task" where
  "detach_category cat_id t =
     (if category_id t = Some cat_id then t\<lparr>category_id := None\<rparr> else t)"

definition confirm_delete_category :: "int \<Rightarrow> int \<Rightarrow> state \<Rightarrow> state \<times> outcome" where
  "confirm_delete_category uid cat_id s =
     (case query_category s cat_id uid of
        Some c \<Rightarrow>
          (s\<lparr>tasks := (\<lambda>k. map_option (detach_category cat_id) (tasks s k)),
             categories := (categories s)(cat_id := None)\<rparr>,
           Replied CategoryDeleted)
      | None \<Rightarrow> (s, Replied CategoryNotFound))"

section \<open>Notions of the specification\<close>

text \<open>A wall-clock time of day: the hour from 0 to 23 and the minute from 0 to 59.\<close>

definition valid_hm :: "int \<times> int \<Rightarrow> bool" where
  "valid_hm hm = (0 \<le> fst hm \<and> fst hm \<le> 23 \<and> 0 \<le> snd hm \<and> snd hm \<le> 59)"


section \<open>Example tasks and states\<close>

text \<open>
  The date with ordinal 739000 is 2024-04-24; \<open>at_0900\<close> is 09:00:00 on that day and
  \<open>at_1200\<close> is noon.
\<close>

definition at_0900 :: datetime where
  "at_0900 = 63849632400000000"

definition at_1200 :: datetime where
  "at_1200 = 63849643200000000"

definition one_shot_example :: task where
  "one_shot_example =
     \<lparr>user_id = 7, title = ''water the plants'', category_id = None, due_time = ''09:00'',
      start_date = 739000, repeat_type = ''none'', repeat_days = None, interval_days = 0,
      reminder_offset = 0, is_done = False, created_at = 0\<rparr>"

definition interval_example :: task where
  "interval_example = one_shot_example\<lparr>repeat_type := ''interval'', interval_days := 3\<rparr>"

definition daily_example :: task where
  "daily_example = one_shot_example\<lparr>repeat_type := ''daily''\<rparr>"

definition midnight_example :: task where
  "midnight_example = daily_example\<lparr>due_time := ''00:10'', reminder_offset := 20\<rparr>"

text \<open>
  \<open>early_example\<close> is the daily task due at 09:00 with an early reminder 15 minutes
  before. \<open>scheduled task_id t\<close> is the state in which \<open>save_task\<close> has stored the row
  \<open>t\<close> under the key \<open>task_id\<close> and scheduled it at noon (lines 378 to 381), with
  nothing else in the store. \<open>offset_cleared\<close> is the state after the owner of the
  scheduled \<open>early_example\<close> has edited its offset to 0. In \<open>categorised_state\<close> the
  user 7 owns the category 3 and the task 1 that refers to it.
\<close>

definition empty_state :: state where
  "empty_state = \<lparr>tasks = Map.empty, categories = Map.empty, jobs = Map.empty, sent = []\<rparr>"

definition early_example :: task where
  "early_example = daily_example\<lparr>reminder_offset := 15\<rparr>"

definition scheduled :: "int \<Rightarrow> task \<Rightarrow> state" where
  "scheduled task_id t =
     empty_state\<lparr>tasks := [task_id \<mapsto> t],
                 jobs := fst (schedule_task task_id t at_1200 at_1200 Map.empty)\<rparr>"

definition offset_cleared :: state where
  "offset_cleared =
     fst (edit_new_value_text 7 ''offset'' 1 ''0'' at_1200 at_1200 (scheduled 1 early_example))"

definition home_category :: category where
  "home_category = \<lparr>cat_user_id = 7, cat_name = ''home''\<rparr>"

definition categorised_state :: state where
  "categorised_state =
     (scheduled 1 (daily_example\<lparr>category_id := Some 3\<rparr>))
       \<lparr>categories := [3 \<mapsto> home_category]\<rparr>"

section \<open>Reading the due time\<close>

lemma is_digit_range: "is_digit c \<Longrightarrow> 0 \<le> digit_val c \<and> digit_val c \<le> 9"
  by (auto simp: is_digit_def digit_val_def)

lemma is_digit_plain:
  "is_digit c \<Longrightarrow>
     \<not> int_isspace c \<and> c \<noteq> CHR '':'' \<and> c \<noteq> CHR ''-'' \<and> c \<noteq> CHR ''+'' \<and> c \<noteq> CHR ''_''"
  by (auto simp: is_digit_def int_isspace_def)

lemma py_int_one: "is_digit a \<Longrightarrow> py_int [a] = Some (digit_val a)"
  using is_digit_plain [of a] by (simp add: py_int_def int_strip_def py_unsigned_def)

lemma py_int_two:
  "is_digit a \<Longrightarrow> is_digit b \<Longrightarrow> py_int [a, b] = Some (10 * digit_val a + digit_val b)"
  using is_digit_plain [of a] is_digit_plain [of b]
  by (simp add: py_int_def int_strip_def py_unsigned_def)

lemma take_hour_cases:
  assumes "take_hour s = Some (h, r)"
  shows "(\<exists>a. s = a # r \<and> is_digit a \<and> h = digit_val a) \<or>
         (\<exists>a b. s = a # b # r \<and> is_digit a \<and> is_digit b
                \<and> h = 10 * digit_val a + digit_val b \<and> h \<le> 23)"
proof (cases s rule: take_hour.cases)
  case 1
  with assms show ?thesis by simp
next
  case (2 a)
  with assms show ?thesis by (auto split: if_splits)
next
  case (3 a b r')
  with assms show ?thesis
    by (auto split: if_splits simp: is_digit_def digit_val_def)
qed

lemma take_minute_cases:
  assumes "take_minute s = Some (m, [])"
  shows "(\<exists>a. s = [a] \<and> is_digit a \<and> m = digit_val a) \<or>
         (\<exists>a b. s = [a, b] \<and> is_digit a \<and> is_digit b
                \<and> m = 10 * digit_val a + digit_val b \<and> m \<le> 59)"
proof (cases s rule: take_minute.cases)
  case 1
  with assms show ?thesis by simp
next
  case (2 a)
  with assms show ?thesis by (auto split: if_splits)
next
  case (3 a b r')
  with assms show ?thesis
    by (auto split: if_splits simp: is_digit_def digit_val_def)
qed

lemma split_hm:
  assumes "\<forall>c \<in> set H. c \<noteq> CHR '':''" "\<forall>c \<in> set M. c \<noteq> CHR '':''"
  shows "split_on CHR '':'' (H @ CHR '':'' # M) = [H, M]"
proof -
  have m: "split_on CHR '':'' M = [M]" using assms(2) by (induction M) auto
  show ?thesis using assms(1) m by (induction H) auto
qed

text \<open>
  A text that \<open>strptime\<close> accepts for \<open>"%H:%M"\<close> is read by line 103 as the same hour
  and minute, and these form a time of day.
\<close>

lemma strptime_parse:
  assumes "strptime_hm s = Some (h, m)"
  shows "parse_due_time s = Inr (h, m) \<and> valid_hm (h, m)"
proof -
  from assms obtain r where th: "take_hour s = Some (h, CHR '':'' # r)"
    and tm: "take_minute r = Some (m, [])"
    by (auto simp: strptime_hm_def split: option.splits list.splits if_splits prod.splits)
  from take_hour_cases [OF th] obtain H where
    H: "s = H @ CHR '':'' # r" "py_int H = Some h" "\<forall>c \<in> set H. c \<noteq> CHR '':''"
       "0 \<le> h" "h \<le> 23"
  proof (elim disjE exE conjE)
    fix a assume "s = a # CHR '':'' # r" "is_digit a" "h = digit_val a"
    then show thesis
      using that [of "[a]"] py_int_one [of a] is_digit_plain [of a] is_digit_range [of a]
      by simp
  next
    fix a b assume "s = a # b # CHR '':'' # r" "is_digit a" "is_digit b"
      "h = 10 * digit_val a + digit_val b" "h \<le> 23"
    then show thesis
      using that [of "[a, b]"] py_int_two [of a b] is_digit_plain [of a] is_digit_plain [of b]
        is_digit_range [of a] is_digit_range [of b] by simp
  qed
  from take_minute_cases [OF tm] have
    M: "py_int r = Some m \<and> (\<forall>c \<in> set r. c \<noteq> CHR '':'') \<and> 0 \<le> m \<and> m \<le> 59"
  proof (elim disjE exE conjE)
    fix a assume "r = [a]" "is_digit a" "m = digit_val a"
    then show ?thesis
      using py_int_one [of a] is_digit_plain [of a] is_digit_range [of a] by simp
  next
    fix a b assume "r = [a, b]" "is_digit a" "is_digit b"
      "m = 10 * digit_val a + digit_val b" "m \<le> 59"
    then show ?thesis
      using py_int_two [of a b] is_digit_plain [of a] is_digit_plain [of b]
        is_digit_range [of a] is_digit_range [of b] by simp
  qed
  have "split_on CHR '':'' s = [H, r]" using H(1,3) M split_hm by simp
  then show ?thesis using H M by (simp add: parse_due_time_def valid_hm_def)
qed

lemma parse_0900: "parse_due_time ''09:00'' = Inr (9, 0)"
  by (simp add: parse_due_time_def py_int_def int_strip_def int_isspace_def py_unsigned_def
        is_digit_def digit_val_def)


lemma strptime_0010: "strptime_hm ''00:10'' = Some (0, 10)"
  by (simp add: strptime_hm_def is_digit_def digit_val_def)

section \<open>Arithmetic of dates and times\<close>

lemma cron_instant_fields:
  assumes "r mod us_per_minute = 0"
  shows "cron_instant (dt_date r) (dt_hour r) (dt_minute r) = r"
proof -
  have hd: "us_per_hour dvd us_per_day" and mh: "us_per_minute dvd us_per_hour"
    by (simp_all add: us_per_day_def us_per_hour_def us_per_minute_def)
  have a: "r = us_per_day * (r div us_per_day) + r mod us_per_day" by simp
  have b: "r mod us_per_day = us_per_hour * ((r mod us_per_day) div us_per_hour) + (r mod us_per_day) mod us_per_hour"
    by simp
  have c: "(r mod us_per_day) mod us_per_hour = r mod us_per_hour"
    using hd by (rule mod_mod_cancel)
  have d: "r mod us_per_hour = us_per_minute * ((r mod us_per_hour) div us_per_minute) + (r mod us_per_hour) mod us_per_minute"
    by simp
  have e: "(r mod us_per_hour) mod us_per_minute = 0"
    using mod_mod_cancel [OF mh, of r] assms by simp
  have "r = us_per_day * (r div us_per_day) + us_per_hour * ((r mod us_per_day) div us_per_hour)
            + us_per_minute * ((r mod us_per_hour) div us_per_minute)"
    using a b c d e by linarith
  then show ?thesis
    by (simp add: cron_instant_def dt_date_def dt_hour_def dt_minute_def mult.commute)
qed

lemma start_at_Inr:
  assumes "start_at d h m = Inr r"
  shows "r = d * us_per_day + h * us_per_hour + m * us_per_minute"
    and "0 < r div us_per_day" and "r div us_per_day \<le> max_ordinal"
  using assms
  by (auto simp: start_at_def timedelta_def dt_add_def combine_min_def Let_def
           split: sum.splits if_splits)

lemma start_at_whole_minute:
  assumes "start_at d h m = Inr r"
  shows "r mod us_per_minute = 0"
proof -
  have "r = us_per_minute * (d * 1440 + h * 60 + m)"
    using start_at_Inr(1) [OF assms]
    by (simp add: us_per_day_def us_per_hour_def us_per_minute_def)
  then show ?thesis by simp
qed

lemma days_div: "(r + n * us_per_day) div us_per_day = r div us_per_day + n"
  by (simp add: us_per_day_def)

lemma roll_forward_ok:
  assumes "0 < r div us_per_day" "0 < n" "r div us_per_day + n \<le> max_ordinal"
  shows "roll_forward r now n = Inr (if r < now then r + n * us_per_day else r)"
proof -
  have "n \<le> max_delta_days" using assms by (simp add: max_ordinal_def max_delta_days_def)
  then have td: "timedelta n 0 0 = Inr (n * us_per_day)"
    using assms(2) by (simp add: timedelta_def us_per_day_def)
  show ?thesis
    using assms td by (simp add: roll_forward_def dt_add_def days_div)
qed

lemma start_at_0900: "start_at 739000 9 0 = Inr at_0900"
  by (simp add: start_at_def timedelta_def dt_add_def combine_min_def at_0900_def
        us_per_day_def us_per_hour_def us_per_minute_def max_ordinal_def max_delta_days_def)

lemma get_trigger_main:
  assumes "parse_due_time (due_time t) = Inr (h, m)"
  shows "get_trigger t False now = trigger_at t (h, m) now"
  using assms by (simp add: get_trigger_def offset_time_def)

section \<open>The trigger calculator\<close>

text \<open>
  Claim C1, as the code has it. For a one-shot task (repeat type \<open>none\<close>) whose due time
  reads as \<open>h:m\<close>, let \<open>run_at\<close> be the start date combined with the due time, on a date
  before the last one that a datetime can hold. If \<open>run_at\<close> is strictly before now, the
  trigger names exactly the instant one day after \<open>run_at\<close>; otherwise (also when
  \<open>run_at\<close> equals now) it names \<open>run_at\<close> itself.
\<close>

theorem one_shot_rolls_forward_one_day:
  assumes "parse_due_time (due_time t) = Inr (h, m)"
    and "repeat_type t = ''none''"
    and "start_at (start_date t) h m = Inr run_at"
    and "dt_date run_at < max_ordinal"
  shows "(let r = (if run_at < now then run_at + us_per_day else run_at)
          in get_trigger t False now = Inr (CronDate (dt_date r) (dt_hour r) (dt_minute r))
             \<and> cron_instant (dt_date r) (dt_hour r) (dt_minute r) = r)"
proof -
  let ?r = "if run_at < now then run_at + 1 * us_per_day else run_at"
  have pos: "0 < run_at div us_per_day" using start_at_Inr(2) [OF assms(3)] .
  have rf: "roll_forward run_at now 1 = Inr ?r"
    using assms(4) pos by (intro roll_forward_ok) (simp_all add: dt_date_def)
  have trg: "get_trigger t False now = Inr (CronDate (dt_date ?r) (dt_hour ?r) (dt_minute ?r))"
    using assms(2,3) rf by (simp add: get_trigger_main [OF assms(1)] trigger_at_def)
  have "run_at mod us_per_minute = 0" using start_at_whole_minute [OF assms(3)] .
  moreover have "us_per_day mod us_per_minute = 0"
    by (simp add: us_per_day_def us_per_minute_def)
  ultimately have "?r mod us_per_minute = 0"
    by (simp add: mod_add_eq [symmetric, of run_at])
  then have "cron_instant (dt_date ?r) (dt_hour ?r) (dt_minute ?r) = ?r"
    by (rule cron_instant_fields)
  with trg show ?thesis by (cases "run_at < now") (simp_all add: Let_def)
qed

text \<open>At noon, the one-shot task due at 09:00 of the same day is moved to the next day.\<close>

theorem one_shot_rolls_forward_one_day_witness:
  "get_trigger one_shot_example False at_1200 = Inr (CronDate 739001 9 0)
   \<and> cron_instant 739001 9 0 = at_0900 + us_per_day"
proof -
  have p: "parse_due_time (due_time one_shot_example) = Inr (9, 0)"
    by (simp add: one_shot_example_def parse_0900)
  have r: "repeat_type one_shot_example = ''none''" by (simp add: one_shot_example_def)
  have s: "start_at (start_date one_shot_example) 9 0 = Inr at_0900"
    by (simp add: one_shot_example_def start_at_0900)
  have d: "dt_date at_0900 < max_ordinal"
    by (simp add: dt_date_def at_0900_def us_per_day_def max_ordinal_def)
  show ?thesis
    using one_shot_rolls_forward_one_day [OF p r s d, of at_1200]
    by (simp add: at_0900_def at_1200_def us_per_day_def us_per_hour_def us_per_minute_def
          dt_date_def dt_hour_def dt_minute_def Let_def)
qed

text \<open>
  Claim C1 as stated fails when the run instant equals now: the task due at 09:00:00,
  looked at exactly then, keeps its instant and is not moved by a day.
\<close>

theorem one_shot_due_now_counterexample:
  "repeat_type one_shot_example = ''none''
   \<and> start_at (start_date one_shot_example) 9 0 = Inr at_0900
   \<and> at_0900 \<le> at_0900
   \<and> get_trigger one_shot_example False at_0900 = Inr (CronDate 739000 9 0)
   \<and> cron_instant 739000 9 0 = at_0900
   \<and> cron_instant 739000 9 0 \<noteq> at_0900 + us_per_day"
  by (simp add: one_shot_example_def get_trigger_def parse_0900 offset_time_def trigger_at_def
        start_at_0900 roll_forward_def dt_date_def dt_hour_def dt_minute_def cron_instant_def
        at_0900_def us_per_day_def us_per_hour_def us_per_minute_def)

text \<open>
  Claim C2, as the code has it. For an interval task with \<open>interval_days = N > 0\<close> whose
  due time reads as \<open>h:m\<close>, let \<open>first\<close> be the start date combined with the due time,
  with \<open>first\<close> plus \<open>N\<close> days still a date that a datetime can hold. The trigger repeats
  every \<open>N\<close> days, starting at \<open>first\<close> plus \<open>N\<close> days if \<open>first\<close> is strictly before
  now (one jump, whether or not that is still in the past), and at \<open>first\<close> otherwise
  (also when \<open>first\<close> equals now).
\<close>

theorem interval_first_occurrence:
  assumes "parse_due_time (due_time t) = Inr (h, m)"
    and "repeat_type t = ''interval''"
    and "0 < interval_days t"
    and "start_at (start_date t) h m = Inr first"
    and "dt_date first + interval_days t \<le> max_ordinal"
  shows "get_trigger t False now =
           Inr (IntervalTrigger (interval_days t)
                  (if first < now then first + interval_days t * us_per_day else first))"
proof -
  have pos: "0 < first div us_per_day" using start_at_Inr(2) [OF assms(4)] .
  have rf: "roll_forward first now (interval_days t) =
              Inr (if first < now then first + interval_days t * us_per_day else first)"
    using assms(3,5) pos by (intro roll_forward_ok) (simp_all add: dt_date_def)
  show ?thesis
    using assms(2,3,4) rf by (simp add: get_trigger_main [OF assms(1)] trigger_at_def)
qed

text \<open>At noon, the task due at 09:00 of the same day and repeating every 3 days starts
  3 days later.\<close>

theorem interval_first_occurrence_witness:
  "get_trigger interval_example False at_1200 = Inr (IntervalTrigger 3 (at_0900 + 3 * us_per_day))"
proof -
  have p: "parse_due_time (due_time interval_example) = Inr (9, 0)"
    by (simp add: interval_example_def one_shot_example_def parse_0900)
  have r: "repeat_type interval_example = ''interval''"
    by (simp add: interval_example_def)
  have n: "0 < interval_days interval_example" by (simp add: interval_example_def)
  have s: "start_at (start_date interval_example) 9 0 = Inr at_0900"
    by (simp add: interval_example_def one_shot_example_def start_at_0900)
  have d: "dt_date at_0900 + interval_days interval_example \<le> max_ordinal"
    by (simp add: interval_example_def dt_date_def at_0900_def us_per_day_def max_ordinal_def)
  show ?thesis
    using interval_first_occurrence [OF p r n s d, of at_1200]
    by (simp add: interval_example_def at_0900_def at_1200_def)
qed

text \<open>
  Claim C2 as stated fails when the first instant equals now: the interval task then
  starts at that instant, not \<open>N\<close> days later.
\<close>

theorem interval_due_now_counterexample:
  "repeat_type interval_example = ''interval'' \<and> interval_days interval_example = 3
   \<and> start_at (start_date interval_example) 9 0 = Inr at_0900
   \<and> at_0900 \<le> at_0900
   \<and> get_trigger interval_example False at_0900 = Inr (IntervalTrigger 3 at_0900)
   \<and> at_0900 \<noteq> at_0900 + 3 * us_per_day"
  by (simp add: interval_example_def one_shot_example_def get_trigger_def parse_0900
        offset_time_def trigger_at_def start_at_0900 roll_forward_def us_per_day_def)



text \<open>
  Claim C9. For every task whose due time is a valid \<open>HH:MM\<close> text denoting \<open>h:m\<close>, the
  code reads that hour and minute, and the early time of day derived from it is a valid
  wall-clock time whenever the offset is positive and at most the minute plus 60. The
  derivation borrows one hour at most: when the offset exceeds the minute plus 60, the
  derived minute is negative.
\<close>

theorem early_time_valid_within_one_borrow:
  assumes "strptime_hm (due_time t) = Some (h, m)"
  shows "parse_due_time (due_time t) = Inr (h, m)
         \<and> (0 < reminder_offset t \<and> reminder_offset t \<le> m + 60 \<longrightarrow>
              valid_hm (offset_time True (reminder_offset t) h m))
         \<and> (m + 60 < reminder_offset t \<longrightarrow>
              snd (offset_time True (reminder_offset t) h m) < 0)"
proof -
  have v: "valid_hm (h, m)" and p: "parse_due_time (due_time t) = Inr (h, m)"
    using strptime_parse [OF assms] by simp_all
  have "0 < reminder_offset t \<and> reminder_offset t \<le> m + 60 \<longrightarrow>
          valid_hm (offset_time True (reminder_offset t) h m)"
    using v by (auto simp: valid_hm_def offset_time_def Let_def)
  moreover have "m + 60 < reminder_offset t \<longrightarrow>
          snd (offset_time True (reminder_offset t) h m) < 0"
    using v by (auto simp: valid_hm_def offset_time_def Let_def)
  ultimately show ?thesis using p by simp
qed

text \<open>
  Due at 00:10: an offset of 20 gives the valid time 23:50, an offset of 90 gives the
  minute -20.
\<close>

theorem early_time_valid_within_one_borrow_witness:
  "strptime_hm (due_time midnight_example) = Some (0, 10)
   \<and> 0 < reminder_offset midnight_example \<and> reminder_offset midnight_example \<le> 10 + 60
   \<and> valid_hm (offset_time True (reminder_offset midnight_example) 0 10)
   \<and> strptime_hm (due_time (midnight_example\<lparr>reminder_offset := 90\<rparr>)) = Some (0, 10)
   \<and> 10 + 60 < reminder_offset (midnight_example\<lparr>reminder_offset := 90\<rparr>)
   \<and> offset_time True 90 0 10 = (23, - 20)"
proof -
  have a: "strptime_hm (due_time midnight_example) = Some (0, 10)"
    by (simp add: midnight_example_def strptime_0010)
  have b: "strptime_hm (due_time (midnight_example\<lparr>reminder_offset := 90\<rparr>)) = Some (0, 10)"
    by (simp add: midnight_example_def strptime_0010)
  show ?thesis
    using early_time_valid_within_one_borrow [OF a] early_time_valid_within_one_borrow [OF b] a b
    by (simp add: midnight_example_def offset_time_def)
qed

section \<open>The job table and the handlers\<close>

lemma job_ids_1: "main_job_id 1 = ''task_1''" "early_job_id 1 = ''task_1_early''"
  by (simp_all add: main_job_id_def early_job_id_def str_int_def digit_char_def)

lemma strptime_1030: "strptime_hm ''10:30'' = Some (10, 30)"
  by (simp add: strptime_hm_def is_digit_def digit_val_def)

lemma get_trigger_daily:
  assumes "parse_due_time (due_time t) = Inr (h, m)" "repeat_type t = ''daily''"
    and "valid_hm (offset_time offset (reminder_offset t) h m)"
  shows "get_trigger t offset now = Inr (CronTime (fst (offset_time offset (reminder_offset t) h m))
                                            (snd (offset_time offset (reminder_offset t) h m)))"
  using assms by (simp add: get_trigger_def trigger_at_def cron_time_def valid_hm_def Let_def)

lemma schedule_daily_plain:
  assumes "strptime_hm (due_time t) = Some (h, m)" "repeat_type t = ''daily''"
    and "reminder_offset t = 0"
  shows "schedule_task k t n1 n2 js =
     (js(main_job_id k \<mapsto>
           \<lparr>job_func = SendReminder, job_trigger = CronTime h m, job_args = [user_id t, k]\<rparr>),
      None)"
proof -
  have p: "parse_due_time (due_time t) = Inr (h, m)" and v: "valid_hm (h, m)"
    using strptime_parse [OF assms(1)] by simp_all
  have "valid_hm (offset_time False (reminder_offset t) h m)"
    using v by (simp add: offset_time_def)
  from get_trigger_daily [OF p assms(2) this, of n1] show ?thesis
    using p assms(3) by (simp add: schedule_task_def add_job_def offset_time_def)
qed

lemma strptime_0900: "strptime_hm ''09:00'' = Some (9, 0)"
  by (simp add: strptime_hm_def is_digit_def digit_val_def)

lemma schedule_daily_example:
  "schedule_task 1 daily_example n1 n2 js =
     (js(''task_1'' \<mapsto> \<lparr>job_func = SendReminder, job_trigger = CronTime 9 0, job_args = [7, 1]\<rparr>), None)"
  using schedule_daily_plain [of daily_example 9 0 1 n1 n2 js]
  by (simp add: daily_example_def one_shot_example_def job_ids_1 strptime_0900)

lemma schedule_early_example:
  "schedule_task 1 early_example n1 n2 js =
     (js(''task_1'' \<mapsto> \<lparr>job_func = SendReminder, job_trigger = CronTime 9 0, job_args = [7, 1]\<rparr>,
         ''task_1_early'' \<mapsto> \<lparr>job_func = SendEarlyReminder, job_trigger = CronTime 8 45,
                               job_args = [7, 1, 15]\<rparr>), None)"
proof -
  have p: "parse_due_time (due_time early_example) = Inr (9, 0)"
    by (simp add: early_example_def daily_example_def one_shot_example_def parse_0900)
  have r: "repeat_type early_example = ''daily''"
    by (simp add: early_example_def daily_example_def)
  have o: "reminder_offset early_example = 15" by (simp add: early_example_def)
  have v: "valid_hm (offset_time False (reminder_offset early_example) 9 0)"
    "valid_hm (offset_time True (reminder_offset early_example) 9 0)"
    by (simp_all add: o offset_time_def valid_hm_def)
  show ?thesis
    using p get_trigger_daily [OF p r v(1), of n1] get_trigger_daily [OF p r v(2), of n2]
    by (simp add: schedule_task_def add_job_def job_ids_1 offset_time_def early_example_def
          daily_example_def one_shot_example_def)
qed

lemma py_int_0: "py_int ''0'' = Some 0"
  by (simp add: py_int_def int_strip_def int_isspace_def py_unsigned_def is_digit_def
        digit_val_def)

text \<open>
  Claim C4, where the code departs from it. The job table has one entry per job id, so a
  task never has two main jobs or two early jobs. But \<open>schedule_task\<close> only adds or
  replaces: when the offset of a task is edited from 15 to 0, the early job registered
  before stays in the table, with the old offset in its arguments, although the stored
  offset is 0 and the prompt of the edit says that 0 disables the early reminder. When it
  fires, the early reminder is still sent.
\<close>

theorem stale_early_job_after_offset_set_to_zero:
  "jobs (scheduled 1 early_example) ''task_1_early''
     = Some \<lparr>job_func = SendEarlyReminder, job_trigger = CronTime 8 45, job_args = [7, 1, 15]\<rparr>
   \<and> snd (edit_new_value_text 7 ''offset'' 1 ''0'' at_1200 at_1200 (scheduled 1 early_example))
       = Replied TaskUpdated
   \<and> map_option reminder_offset
       (tasks (fst (edit_new_value_text 7 ''offset'' 1 ''0'' at_1200 at_1200
                      (scheduled 1 early_example))) 1) = Some 0
   \<and> jobs (fst (edit_new_value_text 7 ''offset'' 1 ''0'' at_1200 at_1200
                   (scheduled 1 early_example))) ''task_1_early''
       = Some \<lparr>job_func = SendEarlyReminder, job_trigger = CronTime 8 45, job_args = [7, 1, 15]\<rparr>
   \<and> sent (fst (send_early_reminder None 7 1 15
                   (fst (edit_new_value_text 7 ''offset'' 1 ''0'' at_1200 at_1200
                           (scheduled 1 early_example)))))
       = [EarlyReminder 7 15 ''water the plants'' ''09:00'']"
proof -
  have e: "early_example\<lparr>reminder_offset := 0\<rparr> = daily_example"
    by (simp add: early_example_def daily_example_def one_shot_example_def)
  show ?thesis
    by (simp add: scheduled_def empty_state_def schedule_early_example edit_new_value_text_def
          query_task_def py_int_0 commit_and_schedule_def e schedule_daily_example Let_def
          send_early_reminder_def send_message_def)
       (simp add: early_example_def daily_example_def one_shot_example_def)
qed

text \<open>
  Claim C5. When the task of a fire event is no longer in the store, or is done, both
  \<open>send_reminder\<close> and \<open>send_early_reminder\<close> return without an exception, leave the
  state as it is and hand nothing to the messaging service, whatever that service would
  have done with a message.
\<close>

theorem fire_on_missing_or_done_task_is_silent:
  assumes "tasks s task_id = None \<or> map_option is_done (tasks s task_id) = Some True"
  shows "send_reminder failure uid task_id s = (s, None)
         \<and> send_early_reminder failure uid task_id offset s = (s, None)"
  using assms by (auto simp: send_reminder_def send_early_reminder_def split: option.splits)

text \<open>A fire for a task that does not exist, and an early fire for a task that is done.\<close>

theorem fire_on_missing_or_done_task_is_silent_witness:
  "send_reminder (Some TelegramAPIError) 7 1 empty_state = (empty_state, None)
   \<and> send_early_reminder None 7 1 15 (scheduled 1 (early_example\<lparr>is_done := True\<rparr>))
       = (scheduled 1 (early_example\<lparr>is_done := True\<rparr>), None)"
proof -
  have a: "tasks empty_state 1 = None \<or> map_option is_done (tasks empty_state 1) = Some True"
    by (simp add: empty_state_def)
  have b: "tasks (scheduled 1 (early_example\<lparr>is_done := True\<rparr>)) 1 = None
           \<or> map_option is_done (tasks (scheduled 1 (early_example\<lparr>is_done := True\<rparr>)) 1) = Some True"
    by (simp add: scheduled_def)
  show ?thesis
    using fire_on_missing_or_done_task_is_silent [OF a, of "Some TelegramAPIError" 7 15]
      fire_on_missing_or_done_task_is_silent [OF b, of None 7 15]
    by simp
qed

text \<open>
  Claim C6, where the code departs from it. \<open>mark_done\<close> and \<open>delete_task\<close> remove the
  main job and the early job without looking whether they exist, and \<open>remove_job\<close>
  raises JobLookupError for a job that does not. For the daily task without an early
  reminder, scheduled as task 1: \<open>delete_task\<close> by its owner raises for the early job
  and the row is still in the store; \<open>mark_done\<close> raises in the same place, and for a
  task with no job at all it raises for the main job.
\<close>

theorem cancel_without_early_job_raises:
  "jobs (scheduled 1 daily_example) ''task_1_early'' = None
   \<and> snd (delete_task 7 1 (scheduled 1 daily_example)) = Raised (JobLookupError ''task_1_early'')
   \<and> tasks (fst (delete_task 7 1 (scheduled 1 daily_example))) 1 = Some daily_example
   \<and> snd (mark_done 7 1 (scheduled 1 daily_example)) = Raised (JobLookupError ''task_1_early'')
   \<and> snd (mark_done 7 1 (empty_state\<lparr>tasks := [1 \<mapsto> daily_example]\<rparr>))
       = Raised (JobLookupError ''task_1'')"
  by (simp add: scheduled_def empty_state_def schedule_daily_example delete_task_def mark_done_def
        query_task_def remove_job_def job_ids_1 Let_def)
     (simp add: daily_example_def one_shot_example_def)

lemma job_ids_differ: "main_job_id k \<noteq> early_job_id k"
  by (simp add: main_job_id_def early_job_id_def)

text \<open>
  What an edit of the time does register. For the owner's edit to a valid text denoting
  \<open>h:m\<close>, the row holds the new due time and the main job is the trigger computed for
  \<open>h:m\<close> from the edited row; when the offset is positive, the early job is the trigger
  computed for the early time of day derived from \<open>h:m\<close>.
\<close>

lemma time_edit_registers_main_job:
  assumes "query_task s task_id uid = Some t"
    and "strptime_hm text = Some (h, m)"
    and "trigger_at (t\<lparr>due_time := text\<rparr>) (h, m) now_main = Inr trg"
  shows "tasks (fst (edit_new_value_text uid ''time'' task_id text now_main now_early s)) task_id
           = Some (t\<lparr>due_time := text\<rparr>)
         \<and> jobs (fst (edit_new_value_text uid ''time'' task_id text now_main now_early s))
               (main_job_id task_id)
           = Some \<lparr>job_func = SendReminder, job_trigger = trg, job_args = [uid, task_id]\<rparr>"
proof -
  have v: "validate_time text" using assms(2) by (simp add: validate_time_def)
  have p: "parse_due_time (due_time (t\<lparr>due_time := text\<rparr>)) = Inr (h, m)"
    using strptime_parse [OF assms(2)] by simp
  have g: "get_trigger (t\<lparr>due_time := text\<rparr>) False now_main = Inr trg"
    using assms(3) by (simp add: get_trigger_main [OF p])
  have u: "user_id t = uid"
    using assms(1) by (auto simp: query_task_def split: option.splits if_splits)
  have e: "edit_new_value_text uid ''time'' task_id text now_main now_early s =
             commit_and_schedule task_id (t\<lparr>due_time := text\<rparr>) now_main now_early s"
    using assms(1) v by (simp add: edit_new_value_text_def)
  show ?thesis
    using p g u job_ids_differ [of task_id]
    by (auto simp: e commit_and_schedule_def schedule_task_def add_job_def Let_def
             split: sum.splits)
qed

lemma time_edit_registers_early_job:
  assumes "query_task s task_id uid = Some t"
    and "strptime_hm text = Some (h, m)"
    and "trigger_at (t\<lparr>due_time := text\<rparr>) (h, m) now_main = Inr trg"
    and "0 < reminder_offset t"
    and "trigger_at (t\<lparr>due_time := text\<rparr>) (offset_time True (reminder_offset t) h m) now_early
           = Inr trg_early"
  shows "jobs (fst (edit_new_value_text uid ''time'' task_id text now_main now_early s))
               (early_job_id task_id)
           = Some \<lparr>job_func = SendEarlyReminder, job_trigger = trg_early,
                   job_args = [uid, task_id, reminder_offset t]\<rparr>"
proof -
  have v: "validate_time text" using assms(2) by (simp add: validate_time_def)
  have p: "parse_due_time (due_time (t\<lparr>due_time := text\<rparr>)) = Inr (h, m)"
    using strptime_parse [OF assms(2)] by simp
  have g: "get_trigger (t\<lparr>due_time := text\<rparr>) False now_main = Inr trg"
    using assms(3) by (simp add: get_trigger_main [OF p])
  have g': "get_trigger (t\<lparr>due_time := text\<rparr>) True now_early = Inr trg_early"
    using assms(5) p by (simp add: get_trigger_def)
  have u: "user_id t = uid"
    using assms(1) by (auto simp: query_task_def split: option.splits if_splits)
  have e: "edit_new_value_text uid ''time'' task_id text now_main now_early s =
             commit_and_schedule task_id (t\<lparr>due_time := text\<rparr>) now_main now_early s"
    using assms(1) v by (simp add: edit_new_value_text_def)
  show ?thesis
    using p g g' u assms(4)
    by (simp add: e commit_and_schedule_def schedule_task_def add_job_def Let_def)
qed

lemma offset_cleared_state:
  "offset_cleared =
     \<lparr>tasks = [1 \<mapsto> daily_example], categories = Map.empty,
      jobs = [''task_1'' \<mapsto>
                \<lparr>job_func = SendReminder, job_trigger = CronTime 9 0, job_args = [7, 1]\<rparr>,
              ''task_1_early'' \<mapsto>
                \<lparr>job_func = SendEarlyReminder, job_trigger = CronTime 8 45,
                 job_args = [7, 1, 15]\<rparr>],
      sent = []\<rparr>"
proof -
  have e: "early_example\<lparr>reminder_offset := 0\<rparr> = daily_example"
    by (simp add: early_example_def daily_example_def one_shot_example_def)
  have q: "query_task (scheduled 1 early_example) 1 7 = Some early_example"
    by (simp add: query_task_def scheduled_def early_example_def daily_example_def
          one_shot_example_def)
  show ?thesis
    by (simp add: offset_cleared_def edit_new_value_text_def q py_int_0 commit_and_schedule_def
          e schedule_daily_example Let_def)
       (simp add: scheduled_def empty_state_def schedule_early_example fun_upd_twist)
qed

lemma schedule_moved_example:
  "schedule_task 1 (daily_example\<lparr>due_time := ''10:30''\<rparr>) n1 n2 js =
     (js(''task_1'' \<mapsto>
           \<lparr>job_func = SendReminder, job_trigger = CronTime 10 30, job_args = [7, 1]\<rparr>),
      None)"
  using schedule_daily_plain [of "daily_example\<lparr>due_time := ''10:30''\<rparr>" 10 30 1 n1 n2 js]
  by (simp add: daily_example_def one_shot_example_def job_ids_1 strptime_1030)

text \<open>
  Claim C7, where the code departs from it. An edit of the time stores the new due time
  and registers the main job again for it, and the early job too when the offset is
  positive, as the two lemmas above say. But \<open>schedule_task\<close> never removes a job: in
  the state \<open>offset_cleared\<close>,
  where the early job of the task due at 09:00 outlived the edit of its offset to 0, the
  edit of the time to 10:30 moves the main job to 10:30 and leaves the early job at
  08:45, the time derived from the old due time. That job is registered to fire before
  the new due time and still sends. The triggers registered after the edit are thus not
  the ones derived from the current fields of the task.
\<close>

theorem time_edit_keeps_early_job_of_old_due_time:
  "snd (edit_new_value_text 7 ''time'' 1 ''10:30'' at_1200 at_1200 offset_cleared)
     = Replied TaskUpdated
   \<and> tasks (fst (edit_new_value_text 7 ''time'' 1 ''10:30'' at_1200 at_1200 offset_cleared)) 1
       = Some (daily_example\<lparr>due_time := ''10:30''\<rparr>)
   \<and> reminder_offset (daily_example\<lparr>due_time := ''10:30''\<rparr>) = 0
   \<and> jobs (fst (edit_new_value_text 7 ''time'' 1 ''10:30'' at_1200 at_1200 offset_cleared))
        ''task_1''
       = Some \<lparr>job_func = SendReminder, job_trigger = CronTime 10 30, job_args = [7, 1]\<rparr>
   \<and> jobs (fst (edit_new_value_text 7 ''time'' 1 ''10:30'' at_1200 at_1200 offset_cleared))
        ''task_1_early''
       = Some \<lparr>job_func = SendEarlyReminder, job_trigger = CronTime 8 45, job_args = [7, 1, 15]\<rparr>
   \<and> offset_time True 15 9 0 = (8, 45)
   \<and> sent (fst (send_early_reminder None 7 1 15
                   (fst (edit_new_value_text 7 ''time'' 1 ''10:30'' at_1200 at_1200
                           offset_cleared))))
       = [EarlyReminder 7 15 ''water the plants'' ''10:30'']"
proof -
  have q: "query_task offset_cleared 1 7 = Some daily_example"
    by (simp add: offset_cleared_state query_task_def daily_example_def one_shot_example_def)
  have v: "validate_time ''10:30''"
    by (simp add: validate_time_def strptime_1030)
  have e: "edit_new_value_text 7 ''time'' 1 ''10:30'' at_1200 at_1200 offset_cleared =
             commit_and_schedule 1 (daily_example\<lparr>due_time := ''10:30''\<rparr>) at_1200 at_1200
               offset_cleared"
    using q v by (simp add: edit_new_value_text_def)
  show ?thesis
    unfolding e
    by (simp add: commit_and_schedule_def schedule_moved_example Let_def offset_cleared_state
          send_early_reminder_def send_message_def offset_time_def)
       (simp add: daily_example_def one_shot_example_def)
qed

text \<open>
  Claim C8. When the owner deletes a category, only the category row is removed. Every
  task \<open>t\<close> stays in the store under its key, with \<open>category_id\<close> cleared if it referred
  to the category and every other field as before; the other categories, the job table
  and the sent reminders are unchanged, and a task of the category that is not done
  still gets its reminder, now without a category name.
\<close>

theorem delete_category_detaches_tasks:
  assumes "query_category s cat_id uid = Some c"
    and "tasks s k = Some t"
  shows "snd (confirm_delete_category uid cat_id s) = Replied CategoryDeleted
         \<and> tasks (fst (confirm_delete_category uid cat_id s)) k
             = Some (t\<lparr>category_id := (if category_id t = Some cat_id then None
                                         else category_id t)\<rparr>)
         \<and> categories (fst (confirm_delete_category uid cat_id s))
             = (categories s)(cat_id := None)
         \<and> jobs (fst (confirm_delete_category uid cat_id s)) = jobs s
         \<and> sent (fst (confirm_delete_category uid cat_id s)) = sent s
         \<and> (\<not> is_done t \<and> category_id t = Some cat_id \<longrightarrow>
              send_reminder None (user_id t) k (fst (confirm_delete_category uid cat_id s))
                = ((fst (confirm_delete_category uid cat_id s))
                     \<lparr>sent := sent s @ [Reminder (user_id t) (title t) None (due_time t)]\<rparr>,
                   None))"
  using assms
  by (simp add: confirm_delete_category_def detach_category_def send_reminder_def
        send_message_def category_name_def)

text \<open>Deleting the category 3 of user 7, to which task 1 refers.\<close>

theorem delete_category_detaches_tasks_witness:
  "tasks categorised_state 1 = Some (daily_example\<lparr>category_id := Some 3\<rparr>)
   \<and> snd (confirm_delete_category 7 3 categorised_state) = Replied CategoryDeleted
   \<and> tasks (fst (confirm_delete_category 7 3 categorised_state)) 1 = Some daily_example
   \<and> categories (fst (confirm_delete_category 7 3 categorised_state)) 3 = None
   \<and> jobs (fst (confirm_delete_category 7 3 categorised_state)) ''task_1''
       = Some \<lparr>job_func = SendReminder, job_trigger = CronTime 9 0, job_args = [7, 1]\<rparr>
   \<and> fst (send_reminder None 7 1 (fst (confirm_delete_category 7 3 categorised_state)))
       = (fst (confirm_delete_category 7 3 categorised_state))
           \<lparr>sent := [Reminder 7 ''water the plants'' None ''09:00'']\<rparr>"
proof -
  have q: "query_category categorised_state 3 7 = Some home_category"
    by (simp add: query_category_def categorised_state_def home_category_def)
  have t: "tasks categorised_state 1 = Some (daily_example\<lparr>category_id := Some 3\<rparr>)"
    by (simp add: categorised_state_def scheduled_def)
  have j: "jobs categorised_state = [''task_1'' \<mapsto>
             \<lparr>job_func = SendReminder, job_trigger = CronTime 9 0, job_args = [7, 1]\<rparr>]"
    using schedule_daily_plain [of "daily_example\<lparr>category_id := Some 3\<rparr>" 9 0 1 at_1200
            at_1200 Map.empty]
    by (simp add: categorised_state_def scheduled_def daily_example_def one_shot_example_def
          job_ids_1 strptime_0900)
  have s: "sent categorised_state = []"
    by (simp add: categorised_state_def scheduled_def empty_state_def)
  have d: "daily_example\<lparr>category_id := None\<rparr> = daily_example"
    by (simp add: daily_example_def one_shot_example_def)
  show ?thesis
    using delete_category_detaches_tasks [OF q t] t j s d
    by (simp add: daily_example_def one_shot_example_def)
qed

text \<open>
  Claim C10. When the id of the task (for mark done, edit and delete) or of the category
  (for rename) is not that of a row owned by the requesting user, each of the four
  handlers returns the state unchanged (store, job table and sent reminders) and answers
  without an exception.
\<close>

theorem foreign_id_changes_nothing:
  assumes "query_task s task_id uid = None"
    and "query_category s cat_id uid = None"
  shows "mark_done uid task_id s = (s, Replied TaskNotFound)
         \<and> edit_new_value_text uid field task_id text now_main now_early s = (s, Replied TaskNotFound)
         \<and> delete_task uid task_id s = (s, Replied TaskNotFound)
         \<and> fst (rename_category uid cat_id new_name s) = s
         \<and> snd (rename_category uid cat_id new_name s)
               \<in> {Replied EmptyName, Replied CategoryNotFound}"
  using assms
  by (simp add: mark_done_def edit_new_value_text_def delete_task_def rename_category_def Let_def)

text \<open>User 8 names the task 1 and the category 3 of user 7.\<close>

theorem foreign_id_changes_nothing_witness:
  "query_task categorised_state 1 7 \<noteq> None \<and> query_category categorised_state 3 7 \<noteq> None
   \<and> mark_done 8 1 categorised_state = (categorised_state, Replied TaskNotFound)
   \<and> edit_new_value_text 8 ''time'' 1 ''10:30'' at_1200 at_1200 categorised_state
       = (categorised_state, Replied TaskNotFound)
   \<and> delete_task 8 1 categorised_state = (categorised_state, Replied TaskNotFound)
   \<and> rename_category 8 3 ''work'' categorised_state = (categorised_state, Replied CategoryNotFound)"
proof -
  have t: "query_task categorised_state 1 8 = None"
    by (simp add: query_task_def categorised_state_def scheduled_def daily_example_def
          one_shot_example_def)
  have c: "query_category categorised_state 3 8 = None"
    by (simp add: query_category_def categorised_state_def home_category_def)
  have n: "strip ''work'' \<noteq> []" by (simp add: strip_def py_isspace_def)
  have o: "query_task categorised_state 1 7 \<noteq> None \<and> query_category categorised_state 3 7 \<noteq> None"
    by (simp add: query_task_def query_category_def categorised_state_def scheduled_def
          daily_example_def one_shot_example_def home_category_def)
  show ?thesis
    using foreign_id_changes_nothing [OF t c, of "''time''" "''10:30''" at_1200 at_1200 "''work''"] o n
    by (auto simp: rename_category_def Let_def c prod_eq_iff)
qed

end
